theory Spec2Isabelle
  imports Main "HOL-Library.Char_ord" "HOL-Library.List_Lexorder"
begin

section \<open>Entities and key templates (src/models/chat-model.ts)\<close>

text \<open>
  The two entities of the single table. Every attribute of the schemas has type
  \<open>string\<close>, except \<open>role\<close>, an enumeration, and \<open>reasoningContent\<close>, which is
  not required. Strings are compared the way the table compares its sort keys: byte by
  byte, as a lexicographic order on character lists.
\<close>

datatype Role = User | Assistant

record ChatItem =
  chatId :: string
  userId :: string
  name :: string
  createdAt :: string
  updatedAt :: string

record MessageItem =
  msgChatId :: string
  messageId :: string
  msgUserId :: string
  msgCreatedAt :: string
  msgUpdatedAt :: string
  content :: string
  reasoningContent :: "string option"
  role :: Role

text \<open>An item of the table is tagged with the entity that wrote it.\<close>

datatype item = Chat ChatItem | ChatMessage MessageItem

text \<open>
  The indexes of both entities declare no \<open>casing\<close>, and the entity library then
  lower-cases every key it builds from a template, the values of the attributes included.
  \<open>toLowerCase\<close> is modelled on the letters \<open>A\<close> to \<open>Z\<close>; every other character is
  left as it is.
\<close>

definition lower_char :: "char \<Rightarrow> char" where
  "lower_char c =
     (case map_of (zip ''ABCDEFGHIJKLMNOPQRSTUVWXYZ'' ''abcdefghijklmnopqrstuvwxyz'') c of
        Some l \<Rightarrow> l
      | None \<Rightarrow> c)"

definition toLowerCase :: "string \<Rightarrow> string" where
  "toLowerCase s = map lower_char s"

text \<open>The templates of the primary index: \<open>CHAT#${chatId}\<close> and \<open>METADATA\<close> for a
  chat, \<open>CHAT#${chatId}\<close> and \<open>MSG#${createdAt}#${messageId}\<close> for a message; the key
  that is written and looked up is the lower-cased template.\<close>

definition chat_pk :: "string \<Rightarrow> string" where
  "chat_pk cid = toLowerCase (''CHAT#'' @ cid)"

definition chat_sk :: string where
  "chat_sk = toLowerCase ''METADATA''"

definition message_pk :: "string \<Rightarrow> string" where
  "message_pk cid = toLowerCase (''CHAT#'' @ cid)"

definition message_sk :: "string \<Rightarrow> string \<Rightarrow> string" where
  "message_sk created mid = toLowerCase (''MSG#'' @ created @ ''#'' @ mid)"

text \<open>The prefix of the sort keys of a query for messages that names no \<open>createdAt\<close>.\<close>

definition message_sk_prefix :: string where
  "message_sk_prefix = toLowerCase ''MSG#''"

fun item_pk :: "item \<Rightarrow> string" where
  "item_pk (Chat c) = chat_pk (chatId c)"
| "item_pk (ChatMessage m) = message_pk (msgChatId m)"

fun item_sk :: "item \<Rightarrow> string" where
  "item_sk (Chat c) = chat_sk"
| "item_sk (ChatMessage m) = message_sk (msgCreatedAt m) (messageId m)"

definition key_of :: "item \<Rightarrow> string \<times> string" where
  "key_of i = (item_pk i, item_sk i)"

text \<open>The \<open>validate\<close> callback of the attribute \<open>name\<close>.\<close>

definition validate_name :: "string \<Rightarrow> bool" where
  "validate_name v = (length v > 0 \<and> length v \<le> 100)"

section \<open>The table\<close>

text \<open>
  Modelled from the spec: the table and the storage client are external to the
  repository (section 6 of the specification: get by exact key, put, conditional patch by
  key, delete by key, range query of a partition in sort-key order). The table is the
  list of its items, read as a map from the primary key \<open>(pk, sk)\<close> that the templates
  compute from the item's attributes. Input/output failures of the client are outside the
  model.
\<close>

type_synonym ddb_table = "item list"

definition ddb_get :: "ddb_table \<Rightarrow> string \<times> string \<Rightarrow> item option" where
  "ddb_get t k = find (\<lambda>i. key_of i = k) t"

definition ddb_delete :: "ddb_table \<Rightarrow> string \<times> string \<Rightarrow> ddb_table" where
  "ddb_delete t k = filter (\<lambda>i. key_of i \<noteq> k) t"

definition ddb_put :: "ddb_table \<Rightarrow> item \<Rightarrow> ddb_table" where
  "ddb_put t i = i # ddb_delete t (key_of i)"

definition begins_with :: "string \<Rightarrow> string \<Rightarrow> bool" where
  "begins_with pre s = (take (length pre) s = pre)"

text \<open>The items of one partition whose sort key has a given prefix, in ascending order of
  the sort key: what a query matches.\<close>

definition ddb_partition :: "ddb_table \<Rightarrow> string \<Rightarrow> string \<Rightarrow> item list" where
  "ddb_partition t pk pre =
     sort_key item_sk (filter (\<lambda>i. item_pk i = pk \<and> begins_with pre (item_sk i)) t)"

section \<open>The environment: clock, identifiers and pages\<close>

text \<open>
  The defaults and setters of the schemas call \<open>new Date().toISOString()\<close> and
  \<open>crypto.randomUUID()\<close>. The world records what the n-th call of each returns and how
  many calls were made.

  A query returns one page: the storage reads the matching items in sort-key order until a
  size limit (about 1 MB) is reached, and \<open>go()\<close> without options issues one such request.
  \<open>first_page\<close> gives, for the matching items in order, how many of them the first page
  holds; the access layer never follows the cursor to a second page.

  The flag \<open>setters_on_every_write\<close> is a property of the entity library: whether the
  \<open>set\<close> callback of \<open>updatedAt\<close> runs on every patch and update of the item, as the
  comment in the schema says, or only on a write that names the attribute. The schema
  declares no \<open>watch\<close>, and the library then behaves as the value \<open>False\<close>; the theorems
  hold for both values. No operation changes \<open>first_page\<close> or the flag.
\<close>

record world =
  table :: ddb_table
  dates :: "nat \<Rightarrow> string"
  ticks :: nat
  uuids :: "nat \<Rightarrow> string"
  draws :: nat
  first_page :: "item list \<Rightarrow> nat"
  setters_on_every_write :: bool

text \<open>One request of a query: the first page of the matching items.\<close>

definition ddb_query :: "world \<Rightarrow> string \<Rightarrow> string \<Rightarrow> item list" where
  "ddb_query w pk pre =
     take (first_page w (ddb_partition (table w) pk pre)) (ddb_partition (table w) pk pre)"

definition new_date :: "world \<Rightarrow> string \<times> world" where
  "new_date w = (dates w (ticks w), w\<lparr>ticks := Suc (ticks w)\<rparr>)"

definition randomUUID :: "world \<Rightarrow> string \<times> world" where
  "randomUUID w = (uuids w (draws w), w\<lparr>draws := Suc (draws w)\<rparr>)"

text \<open>The setter of \<open>updatedAt\<close> on a patch or update that does not name it.\<close>

definition touch_date :: "world \<Rightarrow> string option \<times> world" where
  "touch_date w =
     (if setters_on_every_write w
      then (Some (dates w (ticks w)), w\<lparr>ticks := Suc (ticks w)\<rparr>)
      else (None, w))"

section \<open>Errors\<close>

text \<open>
  The access layer throws \<open>Error\<close> objects that differ in their message:
  \<open>userId is required\<close> is \<open>InvalidArgument\<close>; the three messages
  \<open>Chat with ID ... not found or access denied\<close>, \<open>Message with ID ... not found\<close> and
  \<open>Message with ID ... not found or access denied\<close> are \<open>NotFound\<close>. The entity
  library throws on a failed attribute validation (\<open>ValidationError\<close>) and on a failed
  write condition (\<open>StorageError\<close>). Every \<open>catch\<close> block of the access layer rethrows.
\<close>

datatype error = InvalidArgument | NotFound | ValidationError | StorageError

section \<open>Entity operations\<close>

text \<open>
  Modelled from the spec: the entity library is external to the repository. \<open>create\<close>
  fills the defaults in the order of the schema, validates, runs the setters and puts the item
  on the condition that its key is free; \<open>get\<close> and \<open>delete\<close> address one key;
  \<open>patch\<close> writes on the condition that the item exists, \<open>update\<close> has no such
  condition; \<open>query.primary({chatId}).go()\<close> returns the first page of the messages of
  a partition, in sort-key order.
\<close>

definition chat_get :: "world \<Rightarrow> string \<Rightarrow> ChatItem option" where
  "chat_get w cid =
     (case ddb_get (table w) (chat_pk cid, chat_sk) of
        Some (Chat c) \<Rightarrow> Some c
      | _ \<Rightarrow> None)"

definition chat_create :: "world \<Rightarrow> string \<Rightarrow> string \<Rightarrow> (error + ChatItem) \<times> world" where
  "chat_create w uid nm =
     (let (cid, w1) = randomUUID w;
          (created, w2) = new_date w1;
          (updated0, w3) = new_date w2
      in if \<not> validate_name nm then (Inl ValidationError, w3)
         else
           let (updated, w4) = new_date w3;
               c = \<lparr>chatId = cid, userId = uid, name = nm,
                    createdAt = created, updatedAt = updated\<rparr>
           in if ddb_get (table w4) (key_of (Chat c)) \<noteq> None then (Inl StorageError, w4)
              else (Inr c, w4\<lparr>table := ddb_put (table w4) (Chat c)\<rparr>))"

text \<open>What \<open>set(...)\<close> writes into a chat: the access layer sets either the name or
  nothing; \<open>stamp\<close> is the value of the setter of \<open>updatedAt\<close>, when it ran.\<close>

definition chat_set :: "ChatItem \<Rightarrow> string option \<Rightarrow> string option \<Rightarrow> ChatItem" where
  "chat_set c nm stamp =
     c\<lparr>name := (case nm of Some n \<Rightarrow> n | None \<Rightarrow> name c),
       updatedAt := (case stamp of Some d \<Rightarrow> d | None \<Rightarrow> updatedAt c)\<rparr>"

definition invalid_name :: "string option \<Rightarrow> bool" where
  "invalid_name nm = (case nm of Some n \<Rightarrow> \<not> validate_name n | None \<Rightarrow> False)"

text \<open>\<open>patch({chatId}).set(...).go({response: "all_new"})\<close>: the write has the condition
  that the item exists, and the new item is returned.\<close>

definition chat_patch ::
  "world \<Rightarrow> string \<Rightarrow> string option \<Rightarrow> (error + ChatItem) \<times> world" where
  "chat_patch w cid nm =
     (if invalid_name nm then (Inl ValidationError, w)
      else
        let (stamp, w1) = touch_date w
        in case chat_get w1 cid of
             None \<Rightarrow> (Inl StorageError, w1)
           | Some c \<Rightarrow>
               (Inr (chat_set c nm stamp),
                w1\<lparr>table := ddb_put (table w1) (Chat (chat_set c nm stamp))\<rparr>))"

text \<open>\<open>update({chatId}).set(...).go()\<close>: no condition, and the access layer ignores what
  it returns. The access layer calls it only on a chat it has just read; an update of a key
  that holds no item would write an item with the key attributes alone, which is no chat,
  and is left out of the table here.\<close>

definition chat_update ::
  "world \<Rightarrow> string \<Rightarrow> string option \<Rightarrow> (error + unit) \<times> world" where
  "chat_update w cid nm =
     (if invalid_name nm then (Inl ValidationError, w)
      else
        let (stamp, w1) = touch_date w
        in case chat_get w1 cid of
             None \<Rightarrow> (Inr (), w1)
           | Some c \<Rightarrow>
               (Inr (), w1\<lparr>table := ddb_put (table w1) (Chat (chat_set c nm stamp))\<rparr>))"

definition chat_delete :: "world \<Rightarrow> string \<Rightarrow> world" where
  "chat_delete w cid = w\<lparr>table := ddb_delete (table w) (chat_pk cid, chat_sk)\<rparr>"

definition message_create ::
  "world \<Rightarrow> string \<Rightarrow> string \<Rightarrow> string \<Rightarrow> Role \<Rightarrow> string option
     \<Rightarrow> (error + MessageItem) \<times> world" where
  "message_create w cid uid body r rc =
     (let (mid, w1) = randomUUID w;
          (created, w2) = new_date w1;
          (updated0, w3) = new_date w2;
          (updated, w4) = new_date w3;
          m = \<lparr>msgChatId = cid, messageId = mid, msgUserId = uid,
               msgCreatedAt = created, msgUpdatedAt = updated,
               content = body, reasoningContent = rc, role = r\<rparr>
      in if ddb_get (table w4) (key_of (ChatMessage m)) \<noteq> None then (Inl StorageError, w4)
         else (Inr m, w4\<lparr>table := ddb_put (table w4) (ChatMessage m)\<rparr>))"

definition message_of :: "item \<Rightarrow> MessageItem option" where
  "message_of i = (case i of ChatMessage m \<Rightarrow> Some m | Chat c \<Rightarrow> None)"

definition message_query :: "world \<Rightarrow> string \<Rightarrow> MessageItem list" where
  "message_query w cid =
     List.map_filter message_of (ddb_query w (message_pk cid) message_sk_prefix)"

text \<open>All messages stored in the partition of a chat, whatever fits on a page.\<close>

definition partition_messages :: "world \<Rightarrow> string \<Rightarrow> MessageItem list" where
  "partition_messages w cid =
     List.map_filter message_of (ddb_partition (table w) (message_pk cid) message_sk_prefix)"

text \<open>\<open>patch({chatId, createdAt, messageId}).set({content, reasoningContent?})\<close>.\<close>

definition message_patch ::
  "world \<Rightarrow> string \<Rightarrow> string \<Rightarrow> string \<Rightarrow> string \<Rightarrow> string option
     \<Rightarrow> (error + MessageItem) \<times> world" where
  "message_patch w cid created mid body rc =
     (let (stamp, w1) = touch_date w
      in case ddb_get (table w1) (message_pk cid, message_sk created mid) of
           Some (ChatMessage m) \<Rightarrow>
             let m' = m\<lparr>content := body,
                        reasoningContent :=
                          (case rc of Some r \<Rightarrow> Some r | None \<Rightarrow> reasoningContent m),
                        msgUpdatedAt :=
                          (case stamp of Some d \<Rightarrow> d | None \<Rightarrow> msgUpdatedAt m)\<rparr>
             in (Inr m', w1\<lparr>table := ddb_put (table w1) (ChatMessage m')\<rparr>)
         | _ \<Rightarrow> (Inl StorageError, w1))"

definition message_delete :: "world \<Rightarrow> string \<Rightarrow> string \<Rightarrow> string \<Rightarrow> world" where
  "message_delete w cid created mid =
     w\<lparr>table := ddb_delete (table w) (message_pk cid, message_sk created mid)\<rparr>"

section \<open>The access layer (src/dal/chats.ts)\<close>

definition createChat :: "world \<Rightarrow> string \<Rightarrow> string \<Rightarrow> (error + ChatItem) \<times> world" where
  "createChat w uid nm =
     (if uid = [] then (Inl InvalidArgument, w) else chat_create w uid nm)"

definition getChatForUser :: "world \<Rightarrow> string \<Rightarrow> string \<Rightarrow> error + ChatItem option" where
  "getChatForUser w cid uid =
     (if uid = [] then Inl InvalidArgument
      else case chat_get w cid of
             Some chat \<Rightarrow> if userId chat = uid then Inr (Some chat) else Inr None
           | None \<Rightarrow> Inr None)"

definition createMessage ::
  "world \<Rightarrow> string \<Rightarrow> string \<Rightarrow> string \<Rightarrow> Role \<Rightarrow> string option
     \<Rightarrow> (error + MessageItem) \<times> world" where
  "createMessage w cid uid body r rc =
     (if uid = [] then (Inl InvalidArgument, w)
      else case getChatForUser w cid uid of
             Inl e \<Rightarrow> (Inl e, w)
           | Inr None \<Rightarrow> (Inl NotFound, w)
           | Inr (Some chat) \<Rightarrow>
               (case message_create w cid uid body r rc of
                  (Inl e, w1) \<Rightarrow> (Inl e, w1)
                | (Inr message, w1) \<Rightarrow>
                    (case chat_update w1 cid None of
                       (Inl e, w2) \<Rightarrow> (Inl e, w2)
                     | (Inr u, w2) \<Rightarrow> (Inr message, w2))))"

definition getMessagesForChat :: "world \<Rightarrow> string \<Rightarrow> string \<Rightarrow> error + MessageItem list" where
  "getMessagesForChat w cid uid =
     (if uid = [] then Inl InvalidArgument
      else case getChatForUser w cid uid of
             Inl e \<Rightarrow> Inl e
           | Inr None \<Rightarrow> Inr []
           | Inr (Some chat) \<Rightarrow> Inr (message_query w cid))"

definition updateChatName ::
  "world \<Rightarrow> string \<Rightarrow> string \<Rightarrow> string \<Rightarrow> (error + ChatItem) \<times> world" where
  "updateChatName w cid uid nm =
     (if uid = [] then (Inl InvalidArgument, w)
      else case getChatForUser w cid uid of
             Inl e \<Rightarrow> (Inl e, w)
           | Inr None \<Rightarrow> (Inl NotFound, w)
           | Inr (Some chat) \<Rightarrow> chat_patch w cid (Some nm))"

definition updateMessage ::
  "world \<Rightarrow> string \<Rightarrow> string \<Rightarrow> string \<Rightarrow> string \<Rightarrow> string option
     \<Rightarrow> (error + MessageItem) \<times> world" where
  "updateMessage w cid mid uid body rc =
     (if uid = [] then (Inl InvalidArgument, w)
      else case getChatForUser w cid uid of
             Inl e \<Rightarrow> (Inl e, w)
           | Inr None \<Rightarrow> (Inl NotFound, w)
           | Inr (Some chat) \<Rightarrow>
               (case find (\<lambda>m. messageId m = mid) (message_query w cid) of
                  None \<Rightarrow> (Inl NotFound, w)
                | Some message \<Rightarrow>
                    (case message_patch w cid (msgCreatedAt message) mid body rc of
                       (Inl e, w1) \<Rightarrow> (Inl e, w1)
                     | (Inr updatedMessage, w1) \<Rightarrow>
                         (case chat_update w1 cid None of
                            (Inl e, w2) \<Rightarrow> (Inl e, w2)
                          | (Inr u, w2) \<Rightarrow> (Inr updatedMessage, w2)))))"

text \<open>The loop of \<open>deleteChat\<close> over the messages that the query returned.\<close>

fun delete_messages :: "world \<Rightarrow> string \<Rightarrow> MessageItem list \<Rightarrow> world" where
  "delete_messages w cid [] = w"
| "delete_messages w cid (message # messages) =
     delete_messages (message_delete w cid (msgCreatedAt message) (messageId message))
       cid messages"

definition deleteChat :: "world \<Rightarrow> string \<Rightarrow> string \<Rightarrow> (error + bool) \<times> world" where
  "deleteChat w cid uid =
     (if uid = [] then (Inl InvalidArgument, w)
      else case getChatForUser w cid uid of
             Inl e \<Rightarrow> (Inl e, w)
           | Inr None \<Rightarrow> (Inr False, w)
           | Inr (Some chat) \<Rightarrow>
               (Inr True, chat_delete (delete_messages w cid (message_query w cid)) cid))"

definition deleteMessage ::
  "world \<Rightarrow> string \<Rightarrow> string \<Rightarrow> string \<Rightarrow> (error + bool) \<times> world" where
  "deleteMessage w cid mid uid =
     (if uid = [] then (Inl InvalidArgument, w)
      else case find (\<lambda>m. messageId m = mid) (message_query w cid) of
             None \<Rightarrow> (Inl NotFound, w)
           | Some message \<Rightarrow>
               if msgUserId message \<noteq> uid then (Inl NotFound, w)
               else
                 (case chat_patch (message_delete w cid (msgCreatedAt message) mid) cid None of
                    (Inl e, w1) \<Rightarrow> (Inl e, w1)
                  | (Inr u, w1) \<Rightarrow> (Inr True, w1)))"

section \<open>Ownership, and a worked example\<close>

text \<open>A chat is owned by a caller when a metadata item is stored under the key of the
  \<open>chatId\<close> and carries the caller's \<open>userId\<close>. The key is lower-cased, so the
  \<open>chatId\<close> of the stored item may differ from the one asked for in the case of its
  letters.\<close>

definition owns :: "world \<Rightarrow> string \<Rightarrow> string \<Rightarrow> bool" where
  "owns w cid uid = (case chat_get w cid of Some c \<Rightarrow> userId c = uid | None \<Rightarrow> False)"

text \<open>A table with one chat of user \<open>u1\<close> and two messages in it, one written by
  \<open>u1\<close> and one by the sender \<open>assistant\<close>; a clock that advances by a
  millisecond after its first reading.\<close>

definition chat_c1 :: ChatItem where
  "chat_c1 = \<lparr>chatId = ''c1'', userId = ''u1'', name = ''first chat'',
     createdAt = ''2024-01-01T00:00:00.000Z'', updatedAt = ''2024-01-01T00:00:00.000Z''\<rparr>"

definition message_m1 :: MessageItem where
  "message_m1 = \<lparr>msgChatId = ''c1'', messageId = ''m1'', msgUserId = ''u1'',
     msgCreatedAt = ''2024-01-01T00:00:01.000Z'', msgUpdatedAt = ''2024-01-01T00:00:01.000Z'',
     content = ''hi'', reasoningContent = None, role = User\<rparr>"

definition message_m2 :: MessageItem where
  "message_m2 = \<lparr>msgChatId = ''c1'', messageId = ''m2'', msgUserId = ''assistant'',
     msgCreatedAt = ''2024-01-01T00:00:02.000Z'', msgUpdatedAt = ''2024-01-01T00:00:02.000Z'',
     content = ''hello'', reasoningContent = Some ''greet back'', role = Assistant\<rparr>"

definition example_dates :: "nat \<Rightarrow> string" where
  "example_dates n =
     (if n = 0 then ''2024-01-02T00:00:00.000Z'' else ''2024-01-02T00:00:00.001Z'')"

definition example_uuids :: "nat \<Rightarrow> string" where
  "example_uuids n = ''id-'' @ replicate n (CHR ''x'')"

text \<open>In the example every query result fits on one page.\<close>

definition example_world :: "bool \<Rightarrow> world" where
  "example_world b =
     \<lparr>table = [ChatMessage message_m2, Chat chat_c1, ChatMessage message_m1],
      dates = example_dates, ticks = 0, uuids = example_uuids, draws = 0,
      first_page = length, setters_on_every_write = b\<rparr>"

text \<open>The \<open>chatId\<close> attributes of the stored chats.\<close>

definition chat_of :: "item \<Rightarrow> ChatItem option" where
  "chat_of i = (case i of Chat c \<Rightarrow> Some c | ChatMessage m \<Rightarrow> None)"

definition stored_chatIds :: "world \<Rightarrow> string list" where
  "stored_chatIds w = map chatId (List.map_filter chat_of (table w))"

text \<open>The same world with pages that hold a single item.\<close>

definition paged_world :: world where
  "paged_world = (example_world False)\<lparr>first_page := (\<lambda>xs. 1)\<rparr>"

text \<open>Two messages of the chat with one \<open>createdAt\<close> and the identifiers \<open>a\<close> and
  \<open>B\<close>.\<close>

definition message_a :: MessageItem where
  "message_a = \<lparr>msgChatId = ''c1'', messageId = ''a'', msgUserId = ''u1'',
     msgCreatedAt = ''2024-01-01T00:00:03.000Z'', msgUpdatedAt = ''2024-01-01T00:00:03.000Z'',
     content = ''first'', reasoningContent = None, role = User\<rparr>"

definition message_B :: MessageItem where
  "message_B = \<lparr>msgChatId = ''c1'', messageId = ''B'', msgUserId = ''u1'',
     msgCreatedAt = ''2024-01-01T00:00:03.000Z'', msgUpdatedAt = ''2024-01-01T00:00:03.000Z'',
     content = ''second'', reasoningContent = None, role = User\<rparr>"

definition tie_table :: ddb_table where
  "tie_table = [ChatMessage message_B, ChatMessage message_a, Chat chat_c1]"

text \<open>The same world with a generator that returns the identifier of the stored chat.\<close>

definition collision_world :: world where
  "collision_world = (example_world False)\<lparr>uuids := (\<lambda>n. ''c1'')\<rparr>"

section \<open>The order of a partition, in the words of the specification\<close>

text \<open>
  The specification describes the order in which a query returns the items of a chat's
  partition: the metadata item first, then the messages by creation time, the message
  identifier breaking ties. This is that description, with the identifiers compared in lower
  case, as the keys hold them; the table itself orders by the sort key
  (\<open>ddb_partition\<close>), and the two are compared below.
\<close>

definition message_before :: "MessageItem \<Rightarrow> MessageItem \<Rightarrow> bool" where
  "message_before m1 m2 =
     (msgCreatedAt m1 < msgCreatedAt m2 \<or>
      (msgCreatedAt m1 = msgCreatedAt m2 \<and>
       toLowerCase (messageId m1) \<le> toLowerCase (messageId m2)))"

fun partition_order :: "item \<Rightarrow> item \<Rightarrow> bool" where
  "partition_order (Chat c) j = True"
| "partition_order (ChatMessage m) (Chat c) = False"
| "partition_order (ChatMessage m1) (ChatMessage m2) = message_before m1 m2"

text \<open>The items that belong to a chat: its metadata item and its messages, the
  \<open>chatId\<close> compared in lower case.\<close>

fun belongs_to :: "string \<Rightarrow> item \<Rightarrow> bool" where
  "belongs_to cid (Chat c) = (toLowerCase (chatId c) = toLowerCase cid)"
| "belongs_to cid (ChatMessage m) = (toLowerCase (msgChatId m) = toLowerCase cid)"

text \<open>The strings that \<open>toISOString\<close> returns for the years 0000 to 9999:
  \<open>YYYY-MM-DDTHH:mm:ss.sssZ\<close>, a digit where the pattern below has \<open>d\<close>.\<close>

definition is_digit :: "char \<Rightarrow> bool" where
  "is_digit c = (c \<in> set ''0123456789'')"

definition iso_char :: "char \<Rightarrow> char \<Rightarrow> bool" where
  "iso_char p c = (if p = CHR ''d'' then is_digit c else c = p)"

definition iso_timestamp :: "string \<Rightarrow> bool" where
  "iso_timestamp s = list_all2 iso_char ''dddd-dd-ddTdd:dd:dd.dddZ'' s"

section \<open>Keys and table operations\<close>

lemma lower_char_digit: "is_digit c \<Longrightarrow> lower_char c = c"
proof -
  assume "is_digit c"
  then have "c = CHR ''0'' \<or> c = CHR ''1'' \<or> c = CHR ''2'' \<or> c = CHR ''3'' \<or> c = CHR ''4'' \<or>
             c = CHR ''5'' \<or> c = CHR ''6'' \<or> c = CHR ''7'' \<or> c = CHR ''8'' \<or> c = CHR ''9''"
    unfolding is_digit_def by simp
  then show ?thesis
    by (elim disjE) (simp_all add: lower_char_def)
qed

lemma toLowerCase_append: "toLowerCase (a @ b) = toLowerCase a @ toLowerCase b"
  by (simp add: toLowerCase_def)

lemma toLowerCase_templates:
  "toLowerCase ''CHAT#'' = ''chat#''" "toLowerCase ''METADATA'' = ''metadata''"
  "toLowerCase ''MSG#'' = ''msg#''" "toLowerCase ''#'' = ''#''"
  by (simp_all add: toLowerCase_def lower_char_def)

lemma chat_pk_eq: "chat_pk cid = ''chat#'' @ toLowerCase cid"
  unfolding chat_pk_def toLowerCase_append toLowerCase_templates ..

lemma message_pk_eq: "message_pk cid = ''chat#'' @ toLowerCase cid"
  unfolding message_pk_def toLowerCase_append toLowerCase_templates ..

lemma chat_sk_eq: "chat_sk = ''metadata''"
  unfolding chat_sk_def toLowerCase_templates ..

lemma message_sk_prefix_eq: "message_sk_prefix = ''msg#''"
  unfolding message_sk_prefix_def toLowerCase_templates ..

lemma message_sk_eq: "message_sk d m = ''msg#'' @ toLowerCase d @ ''#'' @ toLowerCase m"
  unfolding message_sk_def toLowerCase_append toLowerCase_templates ..

lemma message_sk_not_chat_sk: "message_sk d m \<noteq> chat_sk"
  by (simp add: message_sk_eq chat_sk_eq)

lemma begins_with_message_sk: "begins_with message_sk_prefix (message_sk d m)"
  by (simp add: begins_with_def message_sk_eq message_sk_prefix_eq)

lemma not_begins_with_chat_sk: "\<not> begins_with message_sk_prefix chat_sk"
  by (simp add: begins_with_def chat_sk_eq message_sk_prefix_eq)

lemma chat_pk_inj: "chat_pk a = chat_pk b \<longleftrightarrow> toLowerCase a = toLowerCase b"
  by (simp add: chat_pk_eq)

lemma message_pk_inj: "message_pk a = message_pk b \<longleftrightarrow> toLowerCase a = toLowerCase b"
  by (simp add: message_pk_eq)

lemma message_pk_chat_pk: "message_pk a = chat_pk a"
  by (simp add: message_pk_def chat_pk_def)

lemma ddb_get_put: "ddb_get (ddb_put t i) k = (if k = key_of i then Some i else ddb_get t k)"
  by (induction t) (auto simp: ddb_get_def ddb_put_def ddb_delete_def)

lemma ddb_get_delete: "ddb_get (ddb_delete t k') k = (if k = k' then None else ddb_get t k)"
  by (induction t) (auto simp: ddb_get_def ddb_delete_def)

lemma ddb_get_key: "ddb_get t k = Some i \<Longrightarrow> key_of i = k \<and> i \<in> set t"
  by (auto simp: ddb_get_def find_Some_iff)

lemma ddb_get_distinct:
  "distinct (map key_of t) \<Longrightarrow> i \<in> set t \<Longrightarrow> ddb_get t (key_of i) = Some i"
  by (induction t) (auto simp: ddb_get_def)

text \<open>Puts and deletes keep the table at one item per key.\<close>

lemma distinct_ddb_delete: "distinct (map key_of t) \<Longrightarrow> distinct (map key_of (ddb_delete t k))"
  by (simp add: ddb_delete_def distinct_map_filter)

lemma distinct_ddb_put: "distinct (map key_of t) \<Longrightarrow> distinct (map key_of (ddb_put t i))"
  by (auto simp: ddb_put_def ddb_delete_def distinct_map_filter)

lemma set_ddb_partition:
  "set (ddb_partition t pk pre) = {i \<in> set t. item_pk i = pk \<and> begins_with pre (item_sk i)}"
  by (auto simp: ddb_partition_def)

lemma set_partition_messages:
  "set (partition_messages w cid) =
     {m. ChatMessage m \<in> set (table w) \<and> message_pk (msgChatId m) = message_pk cid}"
  by (auto simp: partition_messages_def List.map_filter_def set_ddb_partition message_of_def
        begins_with_message_sk image_iff split: item.splits)

text \<open>A page holds messages of the partition, and all of them when the page is long
  enough.\<close>

lemma message_query_subset: "set (message_query w cid) \<subseteq> set (partition_messages w cid)"
  using set_take_subset [of "first_page w (ddb_partition (table w) (message_pk cid) message_sk_prefix)"
      "ddb_partition (table w) (message_pk cid) message_sk_prefix"]
  by (auto simp: message_query_def partition_messages_def ddb_query_def List.map_filter_def)

lemma message_query_one_page:
  assumes "length (ddb_partition (table w) (message_pk cid) message_sk_prefix)
             \<le> first_page w (ddb_partition (table w) (message_pk cid) message_sk_prefix)"
  shows "message_query w cid = partition_messages w cid"
  using assms by (simp add: message_query_def partition_messages_def ddb_query_def)

lemma message_query_in_table:
  "m \<in> set (message_query w cid) \<Longrightarrow>
     ChatMessage m \<in> set (table w) \<and> message_pk (msgChatId m) = message_pk cid"
  using message_query_subset [of w cid] by (auto simp: set_partition_messages)

lemma find_messageId_Some:
  "find (\<lambda>m. messageId m = mid) ms = Some m \<Longrightarrow> m \<in> set ms \<and> messageId m = mid"
  by (auto simp: find_Some_iff)

section \<open>The stored chat\<close>

lemma ddb_get_chat_key:
  "ddb_get t (chat_pk cid, chat_sk) = Some i \<Longrightarrow> \<exists>c. i = Chat c"
  by (cases i) (auto dest!: ddb_get_key simp: key_of_def message_sk_not_chat_sk)

lemma chat_get_None_iff:
  "chat_get w cid = None \<longleftrightarrow> ddb_get (table w) (chat_pk cid, chat_sk) = None"
  by (auto simp: chat_get_def split: option.splits item.splits dest: ddb_get_chat_key)

lemma chat_get_Some:
  "chat_get w cid = Some c \<Longrightarrow>
     chat_pk (chatId c) = chat_pk cid \<and> Chat c \<in> set (table w)"
  by (auto simp: chat_get_def key_of_def split: option.splits item.splits dest!: ddb_get_key)

lemma chat_get_put_chat:
  "chat_get (w\<lparr>table := ddb_put t (Chat c)\<rparr>) cid =
     (if chat_pk cid = chat_pk (chatId c) then Some c else chat_get (w\<lparr>table := t\<rparr>) cid)"
  by (simp add: chat_get_def ddb_get_put key_of_def)

lemma chat_get_put_message:
  "chat_get (w\<lparr>table := ddb_put t (ChatMessage m)\<rparr>) cid = chat_get (w\<lparr>table := t\<rparr>) cid"
  by (simp add: chat_get_def ddb_get_put key_of_def message_sk_not_chat_sk [THEN not_sym])

lemma chat_get_table_cong: "table w = table w' \<Longrightarrow> chat_get w cid = chat_get w' cid"
  by (simp add: chat_get_def)

lemma chat_get_message_delete [simp]:
  "chat_get (message_delete w cid d mid) cid' = chat_get w cid'"
  by (simp add: chat_get_def message_delete_def ddb_get_delete message_sk_not_chat_sk [THEN not_sym])

lemma table_touch_date [simp]: "table (snd (touch_date w)) = table w"
  by (simp add: touch_date_def)

lemma chat_get_touch_date [simp]: "chat_get (snd (touch_date w)) cid = chat_get w cid"
  by (simp add: chat_get_def)

lemma chat_patch_Some:
  assumes "chat_get w cid = Some c" and "\<not> invalid_name nm"
  shows "chat_patch w cid nm =
           (Inr (chat_set c nm (fst (touch_date w))),
            (snd (touch_date w))\<lparr>table :=
               ddb_put (table w) (Chat (chat_set c nm (fst (touch_date w))))\<rparr>)"
  using assms by (simp add: chat_patch_def split_def Let_def)

lemma chat_update_Some:
  assumes "chat_get w cid = Some c" and "\<not> invalid_name nm"
  shows "chat_update w cid nm =
           (Inr (),
            (snd (touch_date w))\<lparr>table :=
               ddb_put (table w) (Chat (chat_set c nm (fst (touch_date w))))\<rparr>)"
  using assms by (simp add: chat_update_def split_def Let_def)

lemma message_patch_Some:
  assumes "ddb_get (table w) (message_pk cid, message_sk d mid) = Some (ChatMessage m)"
  shows "message_patch w cid d mid body rc =
     (Inr (m\<lparr>content := body,
              reasoningContent := (case rc of Some r \<Rightarrow> Some r | None \<Rightarrow> reasoningContent m),
              msgUpdatedAt := (case fst (touch_date w) of Some d \<Rightarrow> d | None \<Rightarrow> msgUpdatedAt m)\<rparr>),
      (snd (touch_date w))\<lparr>table := ddb_put (table w)
         (ChatMessage (m\<lparr>content := body,
              reasoningContent := (case rc of Some r \<Rightarrow> Some r | None \<Rightarrow> reasoningContent m),
              msgUpdatedAt := (case fst (touch_date w) of Some d \<Rightarrow> d | None \<Rightarrow> msgUpdatedAt m)\<rparr>))\<rparr>)"
  using assms by (simp add: message_patch_def split_def Let_def)

lemma message_create_Inr:
  assumes "message_create w cid uid body r rc = (Inr m, w1)"
  shows "table w1 = ddb_put (table w) (ChatMessage m) \<and> dates w1 = dates w \<and>
         ticks w1 = ticks w + 3 \<and> setters_on_every_write w1 = setters_on_every_write w \<and>
         uuids w1 = uuids w \<and> draws w1 = Suc (draws w) \<and> first_page w1 = first_page w \<and>
         m = \<lparr>msgChatId = cid, messageId = uuids w (draws w), msgUserId = uid,
              msgCreatedAt = dates w (ticks w), msgUpdatedAt = dates w (ticks w + 2),
              content = body, reasoningContent = rc, role = r\<rparr>"
  using assms
  by (auto simp: message_create_def randomUUID_def new_date_def Let_def split: if_splits)

section \<open>Ownership checks\<close>

lemma getChatForUser_not_owned:
  "uid \<noteq> [] \<Longrightarrow> \<not> owns w cid uid \<Longrightarrow> getChatForUser w cid uid = Inr None"
  by (auto simp add: getChatForUser_def owns_def split: option.splits)

lemma getChatForUser_owned:
  "uid \<noteq> [] \<Longrightarrow> owns w cid uid \<Longrightarrow>
   \<exists>c. chat_get w cid = Some c \<and> userId c = uid \<and> getChatForUser w cid uid = Inr (Some c)"
  by (auto simp add: getChatForUser_def owns_def split: option.splits)

section \<open>The worked example, evaluated\<close>

lemma example_fields:
  "chatId chat_c1 = ''c1''" "userId chat_c1 = ''u1''" "name chat_c1 = ''first chat''"
  "createdAt chat_c1 = ''2024-01-01T00:00:00.000Z''"
  "updatedAt chat_c1 = ''2024-01-01T00:00:00.000Z''"
  "msgChatId message_m1 = ''c1''" "messageId message_m1 = ''m1''" "msgUserId message_m1 = ''u1''"
  "msgCreatedAt message_m1 = ''2024-01-01T00:00:01.000Z''"
  "msgChatId message_m2 = ''c1''" "messageId message_m2 = ''m2''"
  "msgUserId message_m2 = ''assistant''"
  "msgCreatedAt message_m2 = ''2024-01-01T00:00:02.000Z''"
  "reasoningContent message_m2 = Some ''greet back''" "role message_m2 = Assistant"
  "msgChatId message_a = ''c1''" "messageId message_a = ''a''"
  "msgCreatedAt message_a = ''2024-01-01T00:00:03.000Z''"
  "msgChatId message_B = ''c1''" "messageId message_B = ''B''"
  "msgCreatedAt message_B = ''2024-01-01T00:00:03.000Z''"
  by (simp_all add: chat_c1_def message_m1_def message_m2_def message_a_def message_B_def)

lemma example_lower:
  "toLowerCase ''c1'' = ''c1''" "toLowerCase ''C1'' = ''c1''" "toLowerCase ''m1'' = ''m1''"
  "toLowerCase ''m2'' = ''m2''" "toLowerCase ''m7'' = ''m7''"
  "toLowerCase ''a'' = ''a''" "toLowerCase ''B'' = ''b''" "toLowerCase ''id-'' = ''id-''"
  "toLowerCase ''2024-01-01T00:00:00.000Z'' = ''2024-01-01t00:00:00.000z''"
  "toLowerCase ''2024-01-01T00:00:01.000Z'' = ''2024-01-01t00:00:01.000z''"
  "toLowerCase ''2024-01-01T00:00:02.000Z'' = ''2024-01-01t00:00:02.000z''"
  "toLowerCase ''2024-01-01T00:00:03.000Z'' = ''2024-01-01t00:00:03.000z''"
  "toLowerCase ''2024-01-02T00:00:00.000Z'' = ''2024-01-02t00:00:00.000z''"
  "toLowerCase ''2024-01-02T00:00:00.001Z'' = ''2024-01-02t00:00:00.001z''"
  by (simp_all add: toLowerCase_def lower_char_def)

lemmas key_eqs = chat_pk_eq message_pk_eq chat_sk_eq message_sk_eq message_sk_prefix_eq

lemma example_keys:
  "key_of (Chat chat_c1) = (''chat#c1'', ''metadata'')"
  "key_of (ChatMessage message_m1) = (''chat#c1'', ''msg#2024-01-01t00:00:01.000z#m1'')"
  "key_of (ChatMessage message_m2) = (''chat#c1'', ''msg#2024-01-01t00:00:02.000z#m2'')"
  "key_of (ChatMessage message_a) = (''chat#c1'', ''msg#2024-01-01t00:00:03.000z#a'')"
  "key_of (ChatMessage message_B) = (''chat#c1'', ''msg#2024-01-01t00:00:03.000z#b'')"
  by (simp_all add: key_of_def key_eqs example_fields example_lower)

lemma example_item_keys:
  "item_pk (Chat chat_c1) = ''chat#c1''" "item_sk (Chat chat_c1) = ''metadata''"
  "item_pk (ChatMessage message_m1) = ''chat#c1''"
  "item_sk (ChatMessage message_m1) = ''msg#2024-01-01t00:00:01.000z#m1''"
  "item_pk (ChatMessage message_m2) = ''chat#c1''"
  "item_sk (ChatMessage message_m2) = ''msg#2024-01-01t00:00:02.000z#m2''"
  "item_pk (ChatMessage message_a) = ''chat#c1''"
  "item_sk (ChatMessage message_a) = ''msg#2024-01-01t00:00:03.000z#a''"
  "item_pk (ChatMessage message_B) = ''chat#c1''"
  "item_sk (ChatMessage message_B) = ''msg#2024-01-01t00:00:03.000z#b''"
  by (simp_all add: key_eqs example_fields example_lower)

lemma example_table [simp]:
  "table (example_world b) = [ChatMessage message_m2, Chat chat_c1, ChatMessage message_m1]"
  "first_page (example_world b) = length" "ticks (example_world b) = 0"
  "draws (example_world b) = 0" "dates (example_world b) = example_dates"
  "uuids (example_world b) = example_uuids" "setters_on_every_write (example_world b) = b"
  by (simp_all add: example_world_def)

lemma example_chat_get:
  "chat_get (example_world b) ''c1'' = Some chat_c1"
  "chat_get (example_world b) ''C1'' = Some chat_c1"
  by (simp_all add: chat_get_def ddb_get_def example_keys key_eqs example_lower)

lemma example_partition:
  "ddb_partition [ChatMessage message_m2, Chat chat_c1, ChatMessage message_m1]
     ''chat#c1'' ''msg#'' = [ChatMessage message_m1, ChatMessage message_m2]"
  by (simp add: ddb_partition_def begins_with_def key_eqs example_fields example_lower)

lemma example_messages:
  "message_query (example_world b) ''c1'' = [message_m1, message_m2]"
  "message_query (example_world b) ''C1'' = [message_m1, message_m2]"
  "partition_messages (example_world b) ''c1'' = [message_m1, message_m2]"
  by (simp_all add: message_query_def partition_messages_def ddb_query_def key_eqs example_lower
        example_partition List.map_filter_def message_of_def)

lemma example_owns:
  "owns (example_world b) ''c1'' ''u1''" "owns (example_world b) ''C1'' ''u1''"
  "\<not> owns (example_world b) ''c1'' ''u2''"
  by (simp_all add: owns_def example_chat_get example_fields)

lemma example_stored_chatIds: "stored_chatIds (example_world b) = [''c1'']"
  by (simp add: stored_chatIds_def List.map_filter_def chat_of_def example_fields)

lemmas dal_defs =
  createChat_def chat_create_def createMessage_def message_create_def updateChatName_def
  updateMessage_def message_patch_def getChatForUser_def getMessagesForChat_def
  deleteChat_def chat_delete_def deleteMessage_def message_delete_def chat_patch_def
  chat_update_def touch_date_def invalid_name_def chat_set_def validate_name_def
  randomUUID_def new_date_def key_of_def Let_def

section \<open>Reads and writes on a chat of another owner\<close>

text \<open>
  Claim C4, as amended. For a caller with a non-empty \<open>userId\<close> and a \<open>chatId\<close> under
  whose lower-cased key no chat is stored, or a chat with another \<open>userId\<close>,
  \<open>getChatForUser\<close> returns null and \<open>getMessagesForChat\<close> returns the empty sequence;
  neither raises an error.
\<close>

theorem read_lookups_of_foreign_chat:
  assumes "uid \<noteq> []" and "\<not> owns w cid uid"
  shows "getChatForUser w cid uid = Inr None \<and> getMessagesForChat w cid uid = Inr []"
  using assms by (simp add: getChatForUser_not_owned getMessagesForChat_def)

theorem read_lookups_of_foreign_chat_witness:
  "''u2'' \<noteq> [] \<and> \<not> owns (example_world False) ''c1'' ''u2'' \<and>
   chat_get (example_world False) ''c1'' = Some chat_c1 \<and>
   message_query (example_world False) ''c1'' = [message_m1, message_m2] \<and>
   getChatForUser (example_world False) ''c1'' ''u2'' = Inr None \<and>
   getMessagesForChat (example_world False) ''c1'' ''u2'' = Inr []"
proof -
  have h1: "''u2'' \<noteq> []" by simp
  note h2 = example_owns(3) [of False]
  show ?thesis
    using read_lookups_of_foreign_chat [OF h1 h2] h2 example_chat_get(1) [of False]
      example_messages(1) [of False]
    by simp
qed

text \<open>
  Claim C4 as stated fails: no chat with the \<open>chatId\<close> \<open>C1\<close> is stored, and the two
  lookups return the chat \<open>c1\<close> and its messages, since both identifiers give one key.
\<close>

theorem read_lookups_case_counterexample:
  "''u1'' \<noteq> [] \<and> ''C1'' \<notin> set (stored_chatIds (example_world False)) \<and>
   chatId chat_c1 = ''c1'' \<and>
   getChatForUser (example_world False) ''C1'' ''u1'' = Inr (Some chat_c1) \<and>
   getMessagesForChat (example_world False) ''C1'' ''u1'' = Inr [message_m1, message_m2]"
  by (simp add: example_stored_chatIds example_fields getChatForUser_def getMessagesForChat_def
        example_chat_get example_messages)

text \<open>
  Claim C5, as amended. For a caller with a non-empty \<open>userId\<close> and a \<open>chatId\<close> under
  whose lower-cased key no chat is stored, or a chat with another \<open>userId\<close>,
  \<open>createMessage\<close>, \<open>updateChatName\<close> and \<open>updateMessage\<close> fail with NotFound,
  whatever the other arguments are, and leave the world as it was.
\<close>

theorem writes_to_foreign_chat_not_found:
  assumes "uid \<noteq> []" and "\<not> owns w cid uid"
  shows "createMessage w cid uid body r rc = (Inl NotFound, w) \<and>
         updateChatName w cid uid nm = (Inl NotFound, w) \<and>
         updateMessage w cid mid uid body rc = (Inl NotFound, w)"
  using assms
  by (simp add: getChatForUser_not_owned createMessage_def updateChatName_def updateMessage_def)

theorem writes_to_foreign_chat_not_found_witness:
  "''u2'' \<noteq> [] \<and> \<not> owns (example_world False) ''c1'' ''u2'' \<and>
   createMessage (example_world False) ''c1'' ''u2'' ''text'' Assistant None
     = (Inl NotFound, example_world False) \<and>
   updateChatName (example_world False) ''c1'' ''u2'' ''mine''
     = (Inl NotFound, example_world False) \<and>
   updateMessage (example_world False) ''c1'' ''m1'' ''u2'' ''text'' None
     = (Inl NotFound, example_world False)"
proof -
  have h1: "''u2'' \<noteq> []" by simp
  note h2 = example_owns(3) [of False]
  show ?thesis
    using writes_to_foreign_chat_not_found [OF h1 h2, of "''text''" Assistant None "''mine''" "''m1''"] h2
    by simp
qed

text \<open>
  Claim C5 as stated fails: no chat with the \<open>chatId\<close> \<open>C1\<close> is stored, and
  \<open>createMessage\<close> and \<open>updateChatName\<close> for \<open>C1\<close> succeed on the chat \<open>c1\<close>.
\<close>

theorem writes_case_counterexample:
  "''u1'' \<noteq> [] \<and> ''C1'' \<notin> set (stored_chatIds (example_world False)) \<and>
   fst (createMessage (example_world False) ''C1'' ''u1'' ''again'' User None) =
     Inr \<lparr>msgChatId = ''C1'', messageId = ''id-'', msgUserId = ''u1'',
          msgCreatedAt = ''2024-01-02T00:00:00.000Z'', msgUpdatedAt = ''2024-01-02T00:00:00.001Z'',
          content = ''again'', reasoningContent = None, role = User\<rparr> \<and>
   fst (updateChatName (example_world False) ''C1'' ''u1'' ''renamed'') =
     Inr \<lparr>chatId = ''c1'', userId = ''u1'', name = ''renamed'',
          createdAt = ''2024-01-01T00:00:00.000Z'', updatedAt = ''2024-01-01T00:00:00.000Z''\<rparr>"
proof -
  have "fst (createMessage (example_world False) ''C1'' ''u1'' ''again'' User None) =
     Inr \<lparr>msgChatId = ''C1'', messageId = ''id-'', msgUserId = ''u1'',
          msgCreatedAt = ''2024-01-02T00:00:00.000Z'', msgUpdatedAt = ''2024-01-02T00:00:00.001Z'',
          content = ''again'', reasoningContent = None, role = User\<rparr>"
    by (simp add: dal_defs example_chat_get example_fields ddb_get_def ddb_put_def ddb_delete_def
          chat_get_def example_keys key_eqs example_lower example_dates_def example_uuids_def)
  moreover have "fst (updateChatName (example_world False) ''C1'' ''u1'' ''renamed'') =
     Inr \<lparr>chatId = ''c1'', userId = ''u1'', name = ''renamed'',
          createdAt = ''2024-01-01T00:00:00.000Z'', updatedAt = ''2024-01-01T00:00:00.000Z''\<rparr>"
    by (simp add: dal_defs example_chat_get) (simp add: chat_c1_def)
  ultimately show ?thesis by (simp add: example_stored_chatIds)
qed

section \<open>Deleting a chat\<close>

lemma delete_messages_table:
  "delete_messages w cid ms =
     w\<lparr>table := filter (\<lambda>i. key_of i \<notin>
          (\<lambda>m. (message_pk cid, message_sk (msgCreatedAt m) (messageId m))) ` set ms) (table w)\<rparr>"
proof (induction ms arbitrary: w)
  case Nil
  show ?case by simp
next
  case (Cons m ms)
  show ?case
    by (simp add: Cons.IH message_delete_def ddb_delete_def conj_commute)
qed

lemma partition_keys:
  assumes "i \<in> set (table w)" and "message_query w cid = partition_messages w cid"
  shows "(key_of i \<noteq> (chat_pk cid, chat_sk) \<and>
          key_of i \<notin> (\<lambda>m. (message_pk cid, message_sk (msgCreatedAt m) (messageId m)))
             ` set (message_query w cid))
         \<longleftrightarrow> item_pk i \<noteq> chat_pk cid"
proof (cases i)
  case (Chat c)
  then show ?thesis
    by (auto simp: key_of_def message_sk_not_chat_sk message_sk_not_chat_sk [THEN not_sym]
          message_pk_chat_pk)
next
  case (ChatMessage m)
  with assms show ?thesis
    by (auto simp: key_of_def message_sk_not_chat_sk set_partition_messages
          message_pk_chat_pk image_iff)
qed

lemma deleteChat_owned:
  assumes "uid \<noteq> []" and "owns w cid uid"
  shows "deleteChat w cid uid =
           (Inr True, chat_delete (delete_messages w cid (message_query w cid)) cid)"
proof -
  from getChatForUser_owned [OF assms] obtain c where
    "getChatForUser w cid uid = Inr (Some c)" by blast
  with assms(1) show ?thesis by (simp add: deleteChat_def)
qed

lemma deleteChat_one_page:
  assumes "message_query w cid = partition_messages w cid"
  shows "table (chat_delete (delete_messages w cid (message_query w cid)) cid) =
           filter (\<lambda>i. item_pk i \<noteq> chat_pk cid) (table w)"
proof -
  have "filter (\<lambda>i. key_of i \<noteq> (chat_pk cid, chat_sk))
          (filter (\<lambda>i. key_of i \<notin>
             (\<lambda>m. (message_pk cid, message_sk (msgCreatedAt m) (messageId m)))
               ` set (message_query w cid)) (table w))
        = filter (\<lambda>i. item_pk i \<noteq> chat_pk cid) (table w)"
    unfolding filter_filter
    by (rule filter_cong [OF refl]) (use partition_keys [OF _ assms] in blast)
  then show ?thesis
    by (simp add: chat_delete_def delete_messages_table ddb_delete_def)
qed

lemma partition_messages_empty_iff:
  "partition_messages w cid = [] \<longleftrightarrow>
     (\<forall>m. ChatMessage m \<in> set (table w) \<longrightarrow> message_pk (msgChatId m) \<noteq> message_pk cid)"
proof -
  have "partition_messages w cid = [] \<longleftrightarrow> set (partition_messages w cid) = {}" by simp
  then show ?thesis unfolding set_partition_messages by blast
qed

text \<open>
  Claim C6, as amended. For a caller with a non-empty \<open>userId\<close>, \<open>deleteChat\<close> returns
  false, raises nothing and changes nothing when no chat is stored under the lower-cased key
  of the \<open>chatId\<close>, or a chat of another owner. When the caller owns the chat it returns
  true and deletes the chat item, so that afterwards \<open>getChatForUser\<close> returns null and
  \<open>getMessagesForChat\<close> the empty sequence; when moreover the query returns all messages
  of the partition on its one page, exactly the items of the partition are removed and no
  message of the chat is left.
\<close>

theorem deleteChat_cascade:
  assumes "uid \<noteq> []"
  shows "(\<not> owns w cid uid \<longrightarrow> deleteChat w cid uid = (Inr False, w)) \<and>
         (owns w cid uid \<longrightarrow>
            (\<exists>w'. deleteChat w cid uid = (Inr True, w') \<and>
                  chat_get w' cid = None \<and>
                  getMessagesForChat w' cid uid = Inr [] \<and>
                  getChatForUser w' cid uid = Inr None \<and>
                  (message_query w cid = partition_messages w cid \<longrightarrow>
                     table w' = filter (\<lambda>i. item_pk i \<noteq> chat_pk cid) (table w) \<and>
                     partition_messages w' cid = [])))"
proof (intro conjI impI)
  assume "\<not> owns w cid uid"
  with assms show "deleteChat w cid uid = (Inr False, w)"
    by (simp add: deleteChat_def getChatForUser_not_owned)
next
  assume own: "owns w cid uid"
  define w' where "w' = chat_delete (delete_messages w cid (message_query w cid)) cid"
  have del: "deleteChat w cid uid = (Inr True, w')"
    unfolding w'_def by (rule deleteChat_owned [OF assms own])
  have chat: "chat_get w' cid = None"
    by (simp add: w'_def chat_delete_def chat_get_def ddb_get_delete)
  then have "\<not> owns w' cid uid" by (simp add: owns_def)
  with assms have get: "getChatForUser w' cid uid = Inr None"
    by (rule getChatForUser_not_owned)
  with assms have msgs: "getMessagesForChat w' cid uid = Inr []"
    by (simp add: getMessagesForChat_def)
  have all: "table w' = filter (\<lambda>i. item_pk i \<noteq> chat_pk cid) (table w) \<and>
             partition_messages w' cid = []"
    if page: "message_query w cid = partition_messages w cid"
  proof -
    have tab: "table w' = filter (\<lambda>i. item_pk i \<noteq> chat_pk cid) (table w)"
      unfolding w'_def by (rule deleteChat_one_page [OF page])
    moreover have "partition_messages w' cid = []"
      unfolding partition_messages_empty_iff tab by (auto simp: message_pk_chat_pk)
    ultimately show ?thesis by simp
  qed
  show "\<exists>w'. deleteChat w cid uid = (Inr True, w') \<and>
                  chat_get w' cid = None \<and>
                  getMessagesForChat w' cid uid = Inr [] \<and>
                  getChatForUser w' cid uid = Inr None \<and>
                  (message_query w cid = partition_messages w cid \<longrightarrow>
                     table w' = filter (\<lambda>i. item_pk i \<noteq> chat_pk cid) (table w) \<and>
                     partition_messages w' cid = [])"
    using del chat get msgs all by blast
qed

theorem deleteChat_cascade_witness:
  "''u1'' \<noteq> [] \<and> owns (example_world False) ''c1'' ''u1'' \<and>
   message_query (example_world False) ''c1'' = partition_messages (example_world False) ''c1'' \<and>
   fst (deleteChat (example_world False) ''c1'' ''u1'') = Inr True \<and>
   table (snd (deleteChat (example_world False) ''c1'' ''u1'')) = [] \<and>
   partition_messages (snd (deleteChat (example_world False) ''c1'' ''u1'')) ''c1'' = [] \<and>
   getChatForUser (snd (deleteChat (example_world False) ''c1'' ''u1'')) ''c1'' ''u1'' = Inr None \<and>
   \<not> owns (example_world False) ''c1'' ''u2'' \<and>
   deleteChat (example_world False) ''c1'' ''u2'' = (Inr False, example_world False)"
proof -
  have h1: "''u1'' \<noteq> []" and h1': "''u2'' \<noteq> []" by simp_all
  note h2 = example_owns(1) [of False]
  note h3 = example_owns(3) [of False]
  have h4: "message_query (example_world False) ''c1'' =
            partition_messages (example_world False) ''c1''"
    by (simp add: example_messages)
  have t: "filter (\<lambda>i. item_pk i \<noteq> chat_pk ''c1'') (table (example_world False)) = []"
    by (simp add: key_eqs example_fields example_lower)
  show ?thesis
    using deleteChat_cascade [OF h1, of "example_world False" "''c1''"]
      deleteChat_cascade [OF h1', of "example_world False" "''c1''"] h2 h3 h4 t
    by auto
qed

text \<open>
  Claim C6 as stated fails: no chat with the \<open>chatId\<close> \<open>C1\<close> is stored, and
  \<open>deleteChat\<close> for \<open>C1\<close> returns true and deletes the chat \<open>c1\<close> with its messages.
\<close>

theorem deleteChat_case_counterexample:
  "''u1'' \<noteq> [] \<and> ''C1'' \<notin> set (stored_chatIds (example_world False)) \<and>
   fst (deleteChat (example_world False) ''C1'' ''u1'') = Inr True \<and>
   table (snd (deleteChat (example_world False) ''C1'' ''u1'')) = []"
  by (simp add: example_stored_chatIds dal_defs example_chat_get example_fields
        example_messages ddb_delete_def example_keys key_eqs example_lower)

text \<open>
  The loop runs over one page. With pages of one item the call deletes the first message
  and the chat item, returns true, and leaves the second message in the table.
\<close>

lemma deleteChat_leaves_later_pages:
  "partition_messages paged_world ''c1'' = [message_m1, message_m2] \<and>
   message_query paged_world ''c1'' = [message_m1] \<and>
   fst (deleteChat paged_world ''c1'' ''u1'') = Inr True \<and>
   table (snd (deleteChat paged_world ''c1'' ''u1'')) = [ChatMessage message_m2]"
proof -
  have t: "table paged_world = [ChatMessage message_m2, Chat chat_c1, ChatMessage message_m1]"
    "first_page paged_world = (\<lambda>xs. 1)"
    by (simp_all add: paged_world_def)
  have p: "partition_messages paged_world ''c1'' = [message_m1, message_m2]"
    by (simp add: partition_messages_def t key_eqs example_lower example_partition
          List.map_filter_def message_of_def)
  have q: "message_query paged_world ''c1'' = [message_m1]"
    by (simp add: message_query_def ddb_query_def t key_eqs example_lower example_partition
          List.map_filter_def message_of_def)
  have c: "chat_get paged_world ''c1'' = Some chat_c1"
    by (simp add: chat_get_def t ddb_get_def example_keys key_eqs example_lower)
  show ?thesis
    by (simp add: p q c dal_defs example_fields t ddb_delete_def example_keys key_eqs
          example_lower)
qed

section \<open>Deleting a message\<close>

text \<open>
  Claim C7. For a caller with a non-empty \<open>userId\<close>, \<open>deleteMessage\<close> fails with
  NotFound, and changes nothing, when no message of the chat's partition that carries the
  given \<open>messageId\<close> has the caller as its stored \<open>userId\<close>: that is the case when
  the message exists and was written by someone else (a \<open>messageId\<close> identifies one
  message), and when no message with this \<open>messageId\<close> exists.
\<close>

theorem deleteMessage_not_author:
  assumes "uid \<noteq> []"
    and "\<forall>m \<in> set (partition_messages w cid). messageId m = mid \<longrightarrow> msgUserId m \<noteq> uid"
  shows "deleteMessage w cid mid uid = (Inl NotFound, w)"
proof (cases "find (\<lambda>m. messageId m = mid) (message_query w cid)")
  case None
  with assms(1) show ?thesis by (simp add: deleteMessage_def)
next
  case (Some m)
  from find_messageId_Some [OF Some] message_query_subset [of w cid] assms(2)
  have "msgUserId m \<noteq> uid" by blast
  with assms(1) Some show ?thesis by (simp add: deleteMessage_def)
qed

theorem deleteMessage_not_author_witness:
  "''u1'' \<noteq> [] \<and>
   message_m2 \<in> set (partition_messages (example_world False) ''c1'') \<and>
   msgUserId message_m2 \<noteq> ''u1'' \<and> owns (example_world False) ''c1'' ''u1'' \<and>
   deleteMessage (example_world False) ''c1'' ''m2'' ''u1'' = (Inl NotFound, example_world False) \<and>
   deleteMessage (example_world False) ''c1'' ''m7'' ''u1'' = (Inl NotFound, example_world False)"
proof -
  have h1: "''u1'' \<noteq> []" by simp
  note q = example_messages(3) [of False]
  have h2: "\<forall>m \<in> set (partition_messages (example_world False) ''c1'').
              messageId m = ''m2'' \<longrightarrow> msgUserId m \<noteq> ''u1''"
    by (simp add: q example_fields)
  have h3: "\<forall>m \<in> set (partition_messages (example_world False) ''c1'').
              messageId m = ''m7'' \<longrightarrow> msgUserId m \<noteq> ''u1''"
    by (simp add: q example_fields)
  have h4: "msgUserId message_m2 \<noteq> ''u1''" by (simp add: example_fields)
  note h5 = example_owns(1) [of False]
  show ?thesis
    using deleteMessage_not_author [OF h1 h2] deleteMessage_not_author [OF h1 h3] h4 h5
    by (simp add: q)
qed




text \<open>
  The final patch of the chat carries the condition that the chat item exists. In a
  partition without a metadata item a matching call therefore deletes the message and then
  fails on that condition.
\<close>

lemma deleteMessage_without_chat_item:
  assumes "uid \<noteq> []" and "chat_get w cid = None"
    and "find (\<lambda>m. messageId m = mid) (message_query w cid) = Some m"
    and "msgUserId m = uid"
  shows "deleteMessage w cid mid uid =
           (Inl StorageError, snd (touch_date (message_delete w cid (msgCreatedAt m) mid)))"
  using assms
  by (simp add: deleteMessage_def chat_patch_def invalid_name_def split_def Let_def)

section \<open>Renaming a chat\<close>

text \<open>
  Claim C8. For a chat that the caller owns and a name the schema accepts,
  \<open>updateChatName\<close> followed by \<open>getChatForUser\<close> yields the chat with the new name;
  its \<open>chatId\<close>, \<open>userId\<close> and \<open>createdAt\<close> are those it had before the update,
  and nothing is said about \<open>updatedAt\<close>.
\<close>

theorem updateChatName_roundtrip:
  assumes "uid \<noteq> []" and "chat_get w cid = Some c" and "userId c = uid"
    and "validate_name nm"
  shows "\<exists>c' w'. updateChatName w cid uid nm = (Inr c', w') \<and>
           getChatForUser w' cid uid = Inr (Some c') \<and>
           name c' = nm \<and> chatId c' = chatId c \<and> userId c' = userId c \<and>
           createdAt c' = createdAt c"
proof -
  define c' where "c' = chat_set c (Some nm) (fst (touch_date w))"
  define w' where "w' = (snd (touch_date w))\<lparr>table := ddb_put (table w) (Chat c')\<rparr>"
  have key: "chat_pk (chatId c) = chat_pk cid" using chat_get_Some [OF assms(2)] by simp
  have fields: "name c' = nm" "chatId c' = chatId c" "userId c' = userId c"
    "createdAt c' = createdAt c"
    by (simp_all add: c'_def chat_set_def)
  have "getChatForUser w cid uid = Inr (Some c)"
    using assms by (simp add: getChatForUser_def)
  moreover have "chat_patch w cid (Some nm) = (Inr c', w')"
    unfolding c'_def w'_def using assms(2,4) by (simp add: chat_patch_Some invalid_name_def)
  ultimately have upd: "updateChatName w cid uid nm = (Inr c', w')"
    using assms(1) by (simp add: updateChatName_def)
  have "chat_get w' cid = Some c'"
    unfolding w'_def by (simp add: chat_get_put_chat fields key)
  then have "getChatForUser w' cid uid = Inr (Some c')"
    using assms(1,3) by (simp add: getChatForUser_def fields)
  with upd fields show ?thesis by blast
qed

theorem updateChatName_roundtrip_witness:
  "''u1'' \<noteq> [] \<and> chat_get (example_world True) ''c1'' = Some chat_c1 \<and>
   userId chat_c1 = ''u1'' \<and> validate_name ''renamed'' \<and>
   (\<exists>c' w'. updateChatName (example_world True) ''c1'' ''u1'' ''renamed'' = (Inr c', w') \<and>
           getChatForUser w' ''c1'' ''u1'' = Inr (Some c') \<and>
           name c' = ''renamed'' \<and> chatId c' = chatId chat_c1 \<and> userId c' = userId chat_c1 \<and>
           createdAt c' = createdAt chat_c1)"
proof -
  have h1: "''u1'' \<noteq> []" by simp
  note h2 = example_chat_get(1) [of True]
  have h3: "userId chat_c1 = ''u1''" by (simp add: example_fields)
  have h4: "validate_name ''renamed''" by (simp add: validate_name_def)
  show ?thesis using updateChatName_roundtrip [OF h1 h2 h3 h4] h1 h2 h3 h4 by simp
qed

section \<open>Editing a message\<close>



section \<open>Creating a message touches the chat\<close>

text \<open>
  Claim C2. A successful \<open>createMessage\<close> stores the new message and then writes the
  parent chat item back. The chat keeps its fields; its \<open>updatedAt\<close> is the reading of
  the clock that the re-save takes when the entity library runs the setter on the empty
  update, and the value it had when the library does not. In both cases \<open>updatedAt\<close> is
  greater than or equal to the value before the call, provided the clock does not fall behind
  that value: every later reading of the clock is at least the stored \<open>updatedAt\<close>.
\<close>

theorem createMessage_updatedAt_monotone:
  assumes "createMessage w cid uid body r rc = (Inr m, w')"
    and "chat_get w cid = Some c"
    and "\<forall>n \<ge> ticks w. updatedAt c \<le> dates w n"
  shows "\<exists>c'. chat_get w' cid = Some c' \<and> updatedAt c \<le> updatedAt c' \<and>
           c' = c\<lparr>updatedAt :=
                   (if setters_on_every_write w then dates w (ticks w + 3) else updatedAt c)\<rparr> \<and>
           table w' = ddb_put (ddb_put (table w) (ChatMessage m)) (Chat c') \<and>
           m = \<lparr>msgChatId = cid, messageId = uuids w (draws w), msgUserId = uid,
                msgCreatedAt = dates w (ticks w), msgUpdatedAt = dates w (ticks w + 2),
                content = body, reasoningContent = rc, role = r\<rparr>"
proof -
  from assms(1) have uid: "uid \<noteq> []"
    by (auto simp: createMessage_def split: if_splits)
  from assms(1) uid obtain w1 where
    mc: "message_create w cid uid body r rc = (Inr m, w1)" and
    cu: "chat_update w1 cid None = (Inr (), w')"
    by (auto simp: createMessage_def split: sum.splits option.splits prod.splits)
  note w1 = message_create_Inr [OF mc]
  have c1: "chat_get w1 cid = Some c"
    using assms(2) w1
    by (simp add: chat_get_def ddb_get_put key_of_def message_sk_not_chat_sk [THEN not_sym])
  define c' where "c' = chat_set c None (fst (touch_date w1))"
  have "chat_update w1 cid None =
          (Inr (), (snd (touch_date w1))\<lparr>table := ddb_put (table w1) (Chat c')\<rparr>)"
    unfolding c'_def by (rule chat_update_Some [OF c1]) (simp add: invalid_name_def)
  with cu have w': "w' = (snd (touch_date w1))\<lparr>table := ddb_put (table w1) (Chat c')\<rparr>"
    by simp
  have c'_eq: "c' = c\<lparr>updatedAt :=
                   (if setters_on_every_write w then dates w (ticks w + 3) else updatedAt c)\<rparr>"
    by (simp add: c'_def chat_set_def touch_date_def w1)
  have key: "chat_pk cid = chat_pk (chatId c')"
    using chat_get_Some [OF assms(2)] by (simp add: c'_eq)
  have get: "chat_get w' cid = Some c'"
    unfolding w' by (simp add: chat_get_put_chat key)
  have tab: "table w' = ddb_put (ddb_put (table w) (ChatMessage m)) (Chat c')"
    by (simp add: w' w1)
  have le: "updatedAt c \<le> updatedAt c'"
    using assms(3) by (simp add: c'_eq)
  from get le c'_eq tab w1 show ?thesis by blast
qed

theorem createMessage_updatedAt_monotone_witness:
  "chat_get (example_world False) ''c1'' = Some chat_c1 \<and>
   (\<forall>n. updatedAt chat_c1 \<le> dates (example_world False) n) \<and>
   fst (createMessage (example_world False) ''c1'' ''u1'' ''again'' User None) =
     Inr \<lparr>msgChatId = ''c1'', messageId = ''id-'', msgUserId = ''u1'',
          msgCreatedAt = ''2024-01-02T00:00:00.000Z'', msgUpdatedAt = ''2024-01-02T00:00:00.001Z'',
          content = ''again'', reasoningContent = None, role = User\<rparr> \<and>
   chat_get (snd (createMessage (example_world False) ''c1'' ''u1'' ''again'' User None)) ''c1''
     = Some chat_c1 \<and>
   fst (createMessage (example_world True) ''c1'' ''u1'' ''again'' User None) =
     Inr \<lparr>msgChatId = ''c1'', messageId = ''id-'', msgUserId = ''u1'',
          msgCreatedAt = ''2024-01-02T00:00:00.000Z'', msgUpdatedAt = ''2024-01-02T00:00:00.001Z'',
          content = ''again'', reasoningContent = None, role = User\<rparr> \<and>
   chat_get (snd (createMessage (example_world True) ''c1'' ''u1'' ''again'' User None)) ''c1''
     = Some (chat_c1\<lparr>updatedAt := ''2024-01-02T00:00:00.001Z''\<rparr>)"
proof -
  have h3: "\<forall>n \<ge> ticks (example_world b). updatedAt chat_c1 \<le> dates (example_world b) n" for b
    by (simp add: example_fields example_dates_def)
  have h4: "\<forall>n. updatedAt chat_c1 \<le> dates (example_world False) n"
    by (simp add: example_fields example_dates_def)
  have hf: "fst (createMessage (example_world b) ''c1'' ''u1'' ''again'' User None) =
     Inr \<lparr>msgChatId = ''c1'', messageId = ''id-'', msgUserId = ''u1'',
          msgCreatedAt = ''2024-01-02T00:00:00.000Z'', msgUpdatedAt = ''2024-01-02T00:00:00.001Z'',
          content = ''again'', reasoningContent = None, role = User\<rparr>" for b
    by (simp add: dal_defs example_chat_get example_fields ddb_get_def ddb_put_def ddb_delete_def
          chat_get_def example_keys key_eqs example_lower example_dates_def example_uuids_def)
  then have h1: "createMessage (example_world b) ''c1'' ''u1'' ''again'' User None =
     (Inr \<lparr>msgChatId = ''c1'', messageId = ''id-'', msgUserId = ''u1'',
          msgCreatedAt = ''2024-01-02T00:00:00.000Z'', msgUpdatedAt = ''2024-01-02T00:00:00.001Z'',
          content = ''again'', reasoningContent = None, role = User\<rparr>,
      snd (createMessage (example_world b) ''c1'' ''u1'' ''again'' User None))" for b
    by (metis prod.collapse)
  have f: "chat_get (snd (createMessage (example_world False) ''c1'' ''u1'' ''again'' User None)) ''c1''
             = Some chat_c1"
    using createMessage_updatedAt_monotone [OF h1 example_chat_get(1) h3, of False]
    by auto
  have t: "chat_get (snd (createMessage (example_world True) ''c1'' ''u1'' ''again'' User None)) ''c1''
             = Some (chat_c1\<lparr>updatedAt := ''2024-01-02T00:00:00.001Z''\<rparr>)"
    using createMessage_updatedAt_monotone [OF h1 example_chat_get(1) h3, of True]
    by (auto simp: example_dates_def)
  show ?thesis using example_chat_get(1) [of False] h4 hf [of False] hf [of True] f t by simp
qed

section \<open>Creating a chat\<close>

text \<open>
  Claim C3, as amended. For a non-empty \<open>userId\<close> and a name of length 1 to 100,
  \<open>createChat\<close> returns a chat when no chat is stored under the identifier that
  \<open>crypto.randomUUID()\<close> generates, and fails on the write condition of \<open>create\<close>
  otherwise. The returned chat carries the given name and \<open>userId\<close>, its \<open>chatId\<close> is
  the generated identifier, it is stored under that identifier, and its \<open>createdAt\<close> and
  \<open>updatedAt\<close> are two readings of the clock taken during the call, the one of
  \<open>createdAt\<close> not after the one of \<open>updatedAt\<close>.
\<close>

theorem createChat_returns_fresh_chat:
  assumes "uid \<noteq> []" and "validate_name nm"
  shows "(chat_get w (uuids w (draws w)) = None \<longrightarrow>
           (\<exists>c w'. createChat w uid nm = (Inr c, w') \<and>
              name c = nm \<and> userId c = uid \<and> chatId c = uuids w (draws w) \<and>
              chat_get w' (chatId c) = Some c \<and>
              (\<exists>i j. ticks w \<le> i \<and> i \<le> j \<and> j < ticks w' \<and>
                     createdAt c = dates w i \<and> updatedAt c = dates w j))) \<and>
         (chat_get w (uuids w (draws w)) \<noteq> None \<longrightarrow>
            fst (createChat w uid nm) = Inl StorageError)"
proof (intro conjI impI)
  assume fresh: "chat_get w (uuids w (draws w)) = None"
  define c where "c = \<lparr>chatId = uuids w (draws w), userId = uid, name = nm,
     createdAt = dates w (ticks w), updatedAt = dates w (ticks w + 2)\<rparr>"
  define w' where "w' = w\<lparr>draws := Suc (draws w), ticks := ticks w + 3,
     table := ddb_put (table w) (Chat c)\<rparr>"
  have "ddb_get (table w) (chat_pk (uuids w (draws w)), chat_sk) = None"
    using fresh by (simp add: chat_get_None_iff)
  then have res: "createChat w uid nm = (Inr c, w')"
    using assms
    by (simp add: createChat_def chat_create_def randomUUID_def new_date_def Let_def
          key_of_def c_def w'_def)
  have get: "chat_get w' (chatId c) = Some c"
    by (simp add: w'_def chat_get_put_chat)
  have "ticks w \<le> ticks w \<and> ticks w \<le> ticks w + 2 \<and> ticks w + 2 < ticks w' \<and>
        createdAt c = dates w (ticks w) \<and> updatedAt c = dates w (ticks w + 2)"
    by (simp add: c_def w'_def)
  then have "\<exists>i j. ticks w \<le> i \<and> i \<le> j \<and> j < ticks w' \<and>
                     createdAt c = dates w i \<and> updatedAt c = dates w j"
    by blast
  with res get show "\<exists>c w'. createChat w uid nm = (Inr c, w') \<and>
              name c = nm \<and> userId c = uid \<and> chatId c = uuids w (draws w) \<and>
              chat_get w' (chatId c) = Some c \<and>
              (\<exists>i j. ticks w \<le> i \<and> i \<le> j \<and> j < ticks w' \<and>
                     createdAt c = dates w i \<and> updatedAt c = dates w j)"
    by (intro exI [of _ c] exI [of _ w']) (simp add: c_def)
next
  assume "chat_get w (uuids w (draws w)) \<noteq> None"
  then have "ddb_get (table w) (chat_pk (uuids w (draws w)), chat_sk) \<noteq> None"
    by (simp add: chat_get_None_iff)
  then show "fst (createChat w uid nm) = Inl StorageError"
    using assms
    by (simp add: createChat_def chat_create_def randomUUID_def new_date_def Let_def key_of_def)
qed

text \<open>
  Claim C3 as stated fails: \<open>createdAt\<close> and \<open>updatedAt\<close> come from separate calls of
  \<open>new Date()\<close>, and in the example the clock advances by a millisecond between them.
\<close>

theorem createChat_timestamps_counterexample:
  "''u1'' \<noteq> [] \<and> length ''second chat'' \<ge> 1 \<and> length ''second chat'' \<le> 100 \<and>
   fst (createChat (example_world False) ''u1'' ''second chat'') =
     Inr \<lparr>chatId = ''id-'', userId = ''u1'', name = ''second chat'',
          createdAt = ''2024-01-02T00:00:00.000Z'', updatedAt = ''2024-01-02T00:00:00.001Z''\<rparr> \<and>
   ''2024-01-02T00:00:00.000Z'' \<noteq> ''2024-01-02T00:00:00.001Z''"
  by (simp add: dal_defs ddb_get_def ddb_put_def ddb_delete_def example_keys key_eqs
        example_fields example_lower example_dates_def example_uuids_def)

theorem createChat_returns_fresh_chat_witness:
  "''u1'' \<noteq> [] \<and> validate_name ''second chat'' \<and>
   chat_get (example_world False) (uuids (example_world False) (draws (example_world False))) = None \<and>
   (\<exists>c w'. createChat (example_world False) ''u1'' ''second chat'' = (Inr c, w') \<and>
      name c = ''second chat'' \<and> userId c = ''u1'' \<and> chatId c = ''id-'' \<and>
      chat_get w' (chatId c) = Some c \<and>
      (\<exists>i j. i \<le> j \<and> j < ticks w' \<and>
         createdAt c = example_dates i \<and> updatedAt c = example_dates j)) \<and>
   chat_get collision_world (uuids collision_world (draws collision_world)) = Some chat_c1 \<and>
   fst (createChat collision_world ''u1'' ''second chat'') = Inl StorageError"
proof -
  have h1: "''u1'' \<noteq> []" by simp
  have h2: "validate_name ''second chat''" by (simp add: validate_name_def)
  have h3: "chat_get (example_world False)
              (uuids (example_world False) (draws (example_world False))) = None"
    by (simp add: chat_get_def ddb_get_def example_keys key_eqs example_fields example_lower
          example_uuids_def)
  have e: "uuids (example_world False) (draws (example_world False)) = ''id-''"
    "ticks (example_world False) = 0" "dates (example_world False) = example_dates"
    by (simp_all add: example_uuids_def)
  have h4: "chat_get collision_world (uuids collision_world (draws collision_world)) = Some chat_c1"
    by (simp add: collision_world_def chat_get_def ddb_get_def example_keys key_eqs
          example_fields example_lower)
  have fresh: "\<exists>c w'. createChat (example_world False) ''u1'' ''second chat'' = (Inr c, w') \<and>
      name c = ''second chat'' \<and> userId c = ''u1'' \<and> chatId c = ''id-'' \<and>
      chat_get w' (chatId c) = Some c \<and>
      (\<exists>i j. i \<le> j \<and> j < ticks w' \<and>
         createdAt c = example_dates i \<and> updatedAt c = example_dates j)"
    using createChat_returns_fresh_chat [OF h1 h2, of "example_world False"] h3 unfolding e
    by simp
  have taken: "fst (createChat collision_world ''u1'' ''second chat'') = Inl StorageError"
    using createChat_returns_fresh_chat [OF h1 h2, of collision_world] h4 by simp
  show ?thesis using h1 h2 h3 h4 fresh taken by blast
qed

section \<open>The key design\<close>

lemma iso_lower_le:
  assumes "list_all2 iso_char p a" and "list_all2 iso_char p b"
  shows "map lower_char a @ x \<le> map lower_char b @ y \<longleftrightarrow> a < b \<or> (a = b \<and> x \<le> y)"
  using assms
proof (induction p arbitrary: a b)
  case Nil
  then show ?case by simp
next
  case (Cons q qs)
  from Cons.prems obtain ca as cb bs where
    a: "a = ca # as" "iso_char q ca" "list_all2 iso_char qs as" and
    b: "b = cb # bs" "iso_char q cb" "list_all2 iso_char qs bs"
    by (auto simp: list_all2_Cons1)
  note IH = Cons.IH [OF a(3) b(3)]
  show ?case
  proof (cases "q = CHR ''d''")
    case True
    with a(2) b(2) have "lower_char ca = ca" "lower_char cb = cb"
      by (simp_all add: iso_char_def lower_char_digit)
    then show ?thesis using IH by (auto simp: a(1) b(1))
  next
    case False
    with a(2) b(2) have "ca = cb" by (simp add: iso_char_def)
    then show ?thesis using IH by (auto simp: a(1) b(1))
  qed
qed

lemma message_sk_le:
  assumes "iso_timestamp d1" and "iso_timestamp d2"
  shows "message_sk d1 i1 \<le> message_sk d2 i2 \<longleftrightarrow>
           d1 < d2 \<or> (d1 = d2 \<and> toLowerCase i1 \<le> toLowerCase i2)"
proof -
  have "toLowerCase d1 @ ''#'' @ toLowerCase i1 \<le> toLowerCase d2 @ ''#'' @ toLowerCase i2 \<longleftrightarrow>
          d1 < d2 \<or> (d1 = d2 \<and> ''#'' @ toLowerCase i1 \<le> ''#'' @ toLowerCase i2)"
    unfolding toLowerCase_def
    by (rule iso_lower_le) (use assms in \<open>simp_all add: iso_timestamp_def\<close>)
  then show ?thesis by (simp add: message_sk_eq)
qed

lemma chat_sk_less_message_sk: "chat_sk < message_sk d i"
  by (simp add: chat_sk_eq message_sk_eq)

lemma belongs_to_pk: "belongs_to cid i \<longleftrightarrow> item_pk i = chat_pk cid"
  by (cases i) (simp_all add: chat_pk_inj message_pk_chat_pk)

lemma sk_order_refines:
  assumes "\<And>m1 m2. x = ChatMessage m1 \<Longrightarrow> y = ChatMessage m2 \<Longrightarrow>
             iso_timestamp (msgCreatedAt m1) \<and> iso_timestamp (msgCreatedAt m2)"
    and "item_sk x \<le> item_sk y"
  shows "partition_order x y"
proof (cases x)
  case (Chat c)
  then show ?thesis by simp
next
  case x: (ChatMessage m1)
  show ?thesis
  proof (cases y)
    case (Chat c)
    with x assms(2) chat_sk_less_message_sk [of "msgCreatedAt m1" "messageId m1"]
    show ?thesis by simp
  next
    case y: (ChatMessage m2)
    from assms(1) [OF x y] assms(2) show ?thesis
      by (simp add: x y message_sk_le message_before_def)
  qed
qed

text \<open>
  Claim C1, as amended. The keys are the lower-cased templates: a chat and its messages
  share the partition key \<open>chat#{chatId}\<close>, the sort key of the metadata item is the
  constant \<open>metadata\<close>, and it is strictly below every sort key
  \<open>msg#{createdAt}#{messageId}\<close> of a message. The items that a query of the partition
  matches are exactly the items that belong to the chat, the \<open>chatId\<close> compared in lower
  case. When the \<open>createdAt\<close> values of its messages have the format of
  \<open>toISOString\<close>, the matching items, and the page of them that one request returns,
  come in the order of the specification: metadata first, then the messages by
  \<open>createdAt\<close>, ties broken by the lower-cased \<open>messageId\<close>.
\<close>

theorem partition_query_order:
  assumes "\<forall>m \<in> set (partition_messages w cid). iso_timestamp (msgCreatedAt m)"
  shows "set (ddb_partition (table w) (chat_pk cid) []) = {i \<in> set (table w). belongs_to cid i} \<and>
         (\<forall>c m. item_pk (Chat c) = ''chat#'' @ toLowerCase (chatId c) \<and>
                item_pk (ChatMessage m) = ''chat#'' @ toLowerCase (msgChatId m) \<and>
                item_sk (Chat c) = ''metadata'' \<and>
                item_sk (ChatMessage m) =
                  ''msg#'' @ toLowerCase (msgCreatedAt m) @ ''#'' @ toLowerCase (messageId m) \<and>
                item_sk (Chat c) < item_sk (ChatMessage m)) \<and>
         sorted_wrt partition_order (ddb_partition (table w) (chat_pk cid) []) \<and>
         sorted_wrt partition_order (ddb_query w (chat_pk cid) []) \<and>
         set (ddb_query w (chat_pk cid) []) \<subseteq> set (ddb_partition (table w) (chat_pk cid) [])"
proof (intro conjI)
  show members: "set (ddb_partition (table w) (chat_pk cid) []) = {i \<in> set (table w). belongs_to cid i}"
    by (auto simp: set_ddb_partition begins_with_def belongs_to_pk)
  show "\<forall>c m. item_pk (Chat c) = ''chat#'' @ toLowerCase (chatId c) \<and>
                item_pk (ChatMessage m) = ''chat#'' @ toLowerCase (msgChatId m) \<and>
                item_sk (Chat c) = ''metadata'' \<and>
                item_sk (ChatMessage m) =
                  ''msg#'' @ toLowerCase (msgCreatedAt m) @ ''#'' @ toLowerCase (messageId m) \<and>
                item_sk (Chat c) < item_sk (ChatMessage m)"
    using chat_sk_less_message_sk by (simp add: key_eqs)
  have "sorted (map item_sk (ddb_partition (table w) (chat_pk cid) []))"
    by (simp add: ddb_partition_def)
  then have "sorted_wrt (\<lambda>x y. item_sk x \<le> item_sk y) (ddb_partition (table w) (chat_pk cid) [])"
    by (simp add: sorted_map)
  then show full: "sorted_wrt partition_order (ddb_partition (table w) (chat_pk cid) [])"
  proof (rule sorted_wrt_mono_rel [rotated])
    fix x y
    assume x: "x \<in> set (ddb_partition (table w) (chat_pk cid) [])"
      and y: "y \<in> set (ddb_partition (table w) (chat_pk cid) [])"
      and le: "item_sk x \<le> item_sk y"
    show "partition_order x y"
    proof (rule sk_order_refines [OF _ le])
      fix m1 m2
      assume "x = ChatMessage m1" "y = ChatMessage m2"
      with x y have "m1 \<in> set (partition_messages w cid)" "m2 \<in> set (partition_messages w cid)"
        by (simp_all add: members set_partition_messages message_pk_chat_pk chat_pk_inj)
      with assms show "iso_timestamp (msgCreatedAt m1) \<and> iso_timestamp (msgCreatedAt m2)"
        by simp
    qed
  qed
  show "sorted_wrt partition_order (ddb_query w (chat_pk cid) [])"
    unfolding ddb_query_def by (rule sorted_wrt_take [OF full])
  show "set (ddb_query w (chat_pk cid) []) \<subseteq> set (ddb_partition (table w) (chat_pk cid) [])"
    unfolding ddb_query_def by (rule set_take_subset)
qed

theorem partition_query_order_witness:
  "map (\<lambda>m. iso_timestamp (msgCreatedAt m)) (partition_messages (example_world False) ''c1'')
     = [True, True] \<and>
   ddb_partition (table (example_world False)) (chat_pk ''c1'') [] =
     [Chat chat_c1, ChatMessage message_m1, ChatMessage message_m2] \<and>
   sorted_wrt partition_order (ddb_partition (table (example_world False)) (chat_pk ''c1'') []) \<and>
   sorted_wrt partition_order (ddb_query paged_world (chat_pk ''c1'') [])"
proof -
  have iso: "iso_timestamp (msgCreatedAt message_m1)" "iso_timestamp (msgCreatedAt message_m2)"
    by (simp_all add: example_fields iso_timestamp_def iso_char_def is_digit_def)
  note q = example_messages(3) [of False]
  have h: "\<forall>m \<in> set (partition_messages (example_world False) ''c1''). iso_timestamp (msgCreatedAt m)"
    by (simp add: q iso)
  have q': "partition_messages paged_world ''c1'' = [message_m1, message_m2]"
    by (simp add: partition_messages_def paged_world_def key_eqs example_lower example_partition
          List.map_filter_def message_of_def)
  have h': "\<forall>m \<in> set (partition_messages paged_world ''c1''). iso_timestamp (msgCreatedAt m)"
    by (simp add: q' iso)
  have r: "ddb_partition (table (example_world False)) (chat_pk ''c1'') [] =
     [Chat chat_c1, ChatMessage message_m1, ChatMessage message_m2]"
    by (simp add: ddb_partition_def begins_with_def key_eqs example_fields example_lower)
  show ?thesis
    using partition_query_order [OF h] partition_query_order [OF h'] r
    by (simp add: q iso)
qed

text \<open>
  Claim C1 as stated fails: the keys written for the chat \<open>c1\<close> are \<open>chat#c1\<close> and
  \<open>metadata\<close>, not \<open>CHAT#c1\<close> and \<open>METADATA\<close>; and of two messages with one
  \<open>createdAt\<close> the one with the identifier \<open>a\<close> comes before the one with \<open>B\<close>,
  although \<open>B\<close> is below \<open>a\<close> as a string.
\<close>

theorem partition_keys_counterexample:
  "item_pk (Chat chat_c1) = ''chat#c1'' \<and> item_sk (Chat chat_c1) = ''metadata'' \<and>
   item_sk (ChatMessage message_m1) = ''msg#2024-01-01t00:00:01.000z#m1'' \<and>
   ddb_partition tie_table (chat_pk ''c1'') [] =
     [Chat chat_c1, ChatMessage message_a, ChatMessage message_B] \<and>
   msgCreatedAt message_a = msgCreatedAt message_B \<and>
   messageId message_B < messageId message_a"
  by (simp add: example_item_keys example_fields tie_table_def ddb_partition_def begins_with_def
        key_eqs example_lower)

end
